theory Spec2Isabelle
  imports Complex_Main "HOL-Library.AList" "HOL-Library.Char_ord" "HOL-Library.List_Lexorder"
    "HOL-Library.Product_Lexorder"
begin

section \<open>Values, exceptions and HTTP failures\<close>

text \<open>
  The backend is a FastAPI service over a PostgreSQL/PostGIS store. Every handler is
  modelled as a function from the store (and the request) to a result and the new
  store. A handler either returns a value or fails; a failure is an
  \<^verbatim>\<open>HTTPException\<close> raised by the handler, a request-validation error raised by
  the framework before the handler runs, or an exception that no handler catches
  (which the framework answers with status 500). \<open>HTTPException_exc code prefix e\<close>
  is the \<^verbatim>\<open>HTTPException\<close> whose detail is \<open>prefix\<close> followed by
  \<^verbatim>\<open>str(e)\<close>, the message of the exception \<open>e\<close> that was caught.

  Python floats are modelled as reals and timestamps as integers (microseconds).
  A value whose Python type matters for a comparison is a \<open>pyval\<close>: Python's
  \<^verbatim>\<open>==\<close> between a \<^verbatim>\<open>str\<close> and an \<^verbatim>\<open>int\<close> is always false.
\<close>

datatype pyval = PyInt int | PyStr string

definition py_ne :: "pyval \<Rightarrow> pyval \<Rightarrow> bool" where
  "py_ne a b = (a \<noteq> b)"

datatype exn =
    JWTError
  | ExpiredSignatureError
  | JWTClaimsError
  | UnknownHashError
  | IntegrityError
  | OSError
  | AttributeError
  | DBAPIError

datatype failure =
    HTTPException nat string
  | HTTPException_exc nat string exn
  | RequestValidationError
  | Unhandled exn

fun status_code :: "failure \<Rightarrow> nat" where
  "status_code (HTTPException code detail) = code"
| "status_code (HTTPException_exc code prefix e) = code"
| "status_code RequestValidationError = 422"
| "status_code (Unhandled e) = 500"

section \<open>Tables (app/models.py)\<close>

text \<open>
  \<^verbatim>\<open>User.id\<close> is an integer primary key; \<^verbatim>\<open>Report.user_id\<close> is declared
  \<^verbatim>\<open>str\<close> (a character column), as are \<^verbatim>\<open>ReportRead.user_id\<close> and
  \<^verbatim>\<open>ReportCreate.user_id\<close> in app/schemas.py. A point is the pair (x, y) =
  (longitude, latitude) that \<^verbatim>\<open>ST_MakePoint(lon, lat)\<close> builds.
\<close>

record User =
  u_id :: int
  username :: string
  email :: "string option"
  password_hash :: string
  name :: "string option"
  avatar_url :: "string option"
  bio :: "string option"
  joined_at :: int
  is_active :: bool

type_synonym point = "real \<times> real"

definition ST_MakePoint :: "real \<Rightarrow> real \<Rightarrow> point" where
  "ST_MakePoint x y = (x, y)"

definition ST_X :: "point \<Rightarrow> real" where
  "ST_X p = fst p"

definition ST_Y :: "point \<Rightarrow> real" where
  "ST_Y p = snd p"

record Report =
  r_id :: int
  location :: point
  place_name :: string
  crowd_status :: int
  decibel_level :: real
  vibe_tags :: "string list"
  user_id :: string
  timestamp :: int

text \<open>
  The store: the two tables the modelled handlers read and write, and the next value
  of each primary-key sequence.
\<close>

record db =
  users :: "User list"
  reports :: "Report list"
  next_user_id :: int
  next_report_id :: int

text \<open>
  The unique indexes of the user table: \<^verbatim>\<open>username\<close> (unique) and
  \<^verbatim>\<open>email\<close> (unique; NULLs never collide). A commit that would break one raises
  \<^verbatim>\<open>IntegrityError\<close>.
\<close>

definition unique_violation :: "User list \<Rightarrow> User \<Rightarrow> bool" where
  "unique_violation us u =
     list_ex (\<lambda>v. u_id v \<noteq> u_id u \<and>
                  (username v = username u \<or> (email u \<noteq> None \<and> email v = email u))) us"

text \<open>
  \<^verbatim>\<open>session.add(new_user); await session.commit(); await session.refresh(new_user)\<close>:
  the row gets the next id; \<^verbatim>\<open>joined_at\<close> is the \<^verbatim>\<open>utcnow\<close> default taken
  when the object was built, \<^verbatim>\<open>is_active\<close> defaults to True. An insert that breaks
  a unique index stores no row, but the id it drew from the sequence is spent.
\<close>

definition new_User ::
  "int \<Rightarrow> string \<Rightarrow> string option \<Rightarrow> string \<Rightarrow> string option \<Rightarrow> string option \<Rightarrow>
   string option \<Rightarrow> User" where
  "new_User now uname mail pw nm avatar b =
     \<lparr>u_id = 0, username = uname, email = mail, password_hash = pw, name = nm,
      avatar_url = avatar, bio = b, joined_at = now, is_active = True\<rparr>"

definition session_add_commit :: "db \<Rightarrow> User \<Rightarrow> (exn + User) \<times> db" where
  "session_add_commit d u =
     (let row = u\<lparr>u_id := next_user_id d\<rparr> in
      if unique_violation (users d) row
      then (Inl IntegrityError, d\<lparr>next_user_id := next_user_id d + 1\<rparr>)
      else (Inr row, d\<lparr>users := users d @ [row], next_user_id := next_user_id d + 1\<rparr>))"

text \<open>
  The session. \<^verbatim>\<open>get_session\<close> (app/database.py) yields sqlalchemy's
  \<^verbatim>\<open>AsyncSession\<close>. The handlers of app/routers/auth.py and app/routers/reports.py
  await \<^verbatim>\<open>session.execute\<close> and \<^verbatim>\<open>session.commit\<close> and run as written.
  app/dependencies/auth_user.py and app/routers/users.py are written for a synchronous
  session: \<^verbatim>\<open>session.exec\<close> is no attribute of an \<^verbatim>\<open>AsyncSession\<close>, so reaching
  it raises \<^verbatim>\<open>AttributeError\<close>; \<^verbatim>\<open>session.get\<close>, \<^verbatim>\<open>session.delete\<close>,
  \<^verbatim>\<open>session.commit\<close> and \<^verbatim>\<open>session.refresh\<close> are coroutine functions, so a
  call without \<^verbatim>\<open>await\<close> only builds a coroutine object: nothing is read or written,
  the object is truthy, and reading or setting a row attribute on it raises
  \<^verbatim>\<open>AttributeError\<close>.
\<close>

datatype unawaited = Coroutine

definition truthy :: "unawaited \<Rightarrow> bool" where
  "truthy c = True"

definition session_exec :: "exn + User option" where
  "session_exec = Inl AttributeError"

section \<open>Credentials and tokens (app/core/security.py)\<close>

text \<open>
  \<^verbatim>\<open>pwd_context\<close> is passlib's \<^verbatim>\<open>CryptContext(schemes=["bcrypt_sha256"])\<close>, a
  library object: it is a parameter of the model. Hashing draws a random salt, so the
  salt is an argument; verifying returns a boolean or raises (passlib raises
  \<^verbatim>\<open>UnknownHashError\<close> for a string no configured scheme identifies). Neither
  \<^verbatim>\<open>hash_password\<close> nor \<^verbatim>\<open>verify_password\<close> has a \<^verbatim>\<open>try\<close>.
\<close>

record CryptContext =
  ctx_hash :: "string \<Rightarrow> string \<Rightarrow> string"
  ctx_verify :: "string \<Rightarrow> string \<Rightarrow> exn + bool"

definition hash_password :: "CryptContext \<Rightarrow> string \<Rightarrow> string \<Rightarrow> string" where
  "hash_password pwd_context salt password = ctx_hash pwd_context salt password"

definition verify_password :: "CryptContext \<Rightarrow> string \<Rightarrow> string \<Rightarrow> exn + bool" where
  "verify_password pwd_context plain_password hashed_password =
     ctx_verify pwd_context plain_password hashed_password"

text \<open>
  The token library (python-jose) is a parameter too: \<open>jwt_encode\<close> signs a claim
  set, \<open>jwt_decode\<close> returns the claims of a token or raises \<^verbatim>\<open>JWTError\<close> (or
  one of its subclasses) when the token is malformed, its signature does not verify,
  or it has expired. \<^verbatim>\<open>decode_access_token\<close> catches \<^verbatim>\<open>JWTError\<close> only to
  raise it again.
\<close>

type_synonym claims = "(string \<times> pyval) list"

definition ACCESS_TOKEN_EXPIRE_MINUTES :: int where
  "ACCESS_TOKEN_EXPIRE_MINUTES = 60 * 24 * 7"

definition create_access_token ::
  "(claims \<Rightarrow> string) \<Rightarrow> int \<Rightarrow> claims \<Rightarrow> int option \<Rightarrow> string" where
  "create_access_token jwt_encode now data expires_delta =
     (let expire = (case expires_delta of
                      None \<Rightarrow> now + ACCESS_TOKEN_EXPIRE_MINUTES * 60000000
                    | Some delta \<Rightarrow>
                        if delta = 0 then now + ACCESS_TOKEN_EXPIRE_MINUTES * 60000000
                        else now + delta)
      in jwt_encode (AList.update ''exp'' (PyInt expire) data))"

definition decode_access_token :: "(string \<Rightarrow> exn + claims) \<Rightarrow> string \<Rightarrow> exn + claims" where
  "decode_access_token jwt_decode token =
     (case jwt_decode token of
        Inr payload \<Rightarrow> Inr payload
      | Inl e \<Rightarrow> Inl e)"

text \<open>
  \<^verbatim>\<open>get_token_subject\<close>, a helper no route calls, is the one place that catches
  \<^verbatim>\<open>JWTError\<close> (the class and its subclasses) and answers \<^verbatim>\<open>None\<close>.
\<close>

definition is_JWTError :: "exn \<Rightarrow> bool" where
  "is_JWTError e = (e = JWTError \<or> e = ExpiredSignatureError \<or> e = JWTClaimsError)"

definition get_token_subject ::
  "(string \<Rightarrow> exn + claims) \<Rightarrow> string \<Rightarrow> exn + pyval option" where
  "get_token_subject jwt_decode token =
     (case decode_access_token jwt_decode token of
        Inr payload \<Rightarrow> Inr (map_of payload ''sub'')
      | Inl e \<Rightarrow> if is_JWTError e then Inr None else Inl e)"

section \<open>Identity resolution\<close>

text \<open>
  \<^verbatim>\<open>get_current_user\<close> of app/dependencies/auth_user.py calls
  \<^verbatim>\<open>decode_access_token\<close> outside any \<^verbatim>\<open>try\<close>: an exception of the decoder
  leaves the dependency as it is. The 401 is raised only for a decoded payload that is
  empty or has no \<^verbatim>\<open>sub\<close>. For a payload with a subject the user is looked up
  with \<^verbatim>\<open>session.exec\<close>, which raises.
\<close>

definition get_current_user :: "(string \<Rightarrow> exn + claims) \<Rightarrow> db \<Rightarrow> string \<Rightarrow> failure + User" where
  "get_current_user jwt_decode d token =
     (case decode_access_token jwt_decode token of
        Inl e \<Rightarrow> Inl (Unhandled e)
      | Inr payload \<Rightarrow>
          if payload = [] then Inl (HTTPException 401 ''Invalid or expired authentication token'')
          else (case map_of payload ''sub'' of
                  None \<Rightarrow> Inl (HTTPException 401 ''Invalid or expired authentication token'')
                | Some uname \<Rightarrow>
                    (case session_exec of
                       Inl e \<Rightarrow> Inl (Unhandled e)
                     | Inr None \<Rightarrow> Inl (HTTPException 404 ''User not found'')
                     | Inr (Some user) \<Rightarrow> Inr user)))"

text \<open>
  The route \<^verbatim>\<open>GET /api/auth/me\<close> of app/routers/auth.py, a function of the same name,
  awaits \<^verbatim>\<open>session.execute\<close> and finds the user.
\<close>

definition auth_get_current_user ::
  "(string \<Rightarrow> exn + claims) \<Rightarrow> db \<Rightarrow> string \<Rightarrow> failure + User" where
  "auth_get_current_user jwt_decode d token =
     (case decode_access_token jwt_decode token of
        Inl e \<Rightarrow> Inl (Unhandled e)
      | Inr payload \<Rightarrow>
          if payload = [] then Inl (HTTPException 401 ''Invalid or expired token'')
          else (case map_of payload ''sub'' of
                  None \<Rightarrow> Inl (HTTPException 401 ''Invalid or expired token'')
                | Some uname \<Rightarrow>
                    (case find (\<lambda>u. PyStr (username u) = uname) (users d) of
                       None \<Rightarrow> Inl (HTTPException 404 ''User not found'')
                     | Some user \<Rightarrow> Inr user)))"

text \<open>
  \<^verbatim>\<open>current_user: User = Depends(get_current_user)\<close>: the handler runs only with
  the user the dependency returned; a failure of the dependency is the request's.
\<close>

definition Depends ::
  "failure + User \<Rightarrow> (User \<Rightarrow> db \<Rightarrow> (failure + 'a) \<times> db) \<Rightarrow> db \<Rightarrow> (failure + 'a) \<times> db" where
  "Depends resolved handler d =
     (case resolved of
        Inl e \<Rightarrow> (Inl e, d)
      | Inr current_user \<Rightarrow> handler current_user d)"

section \<open>Users (app/routers/users.py, app/routers/auth.py)\<close>

text \<open>
  \<^verbatim>\<open>UserCreate\<close> is the request body the handlers receive, after the framework
  has validated it (a username, a password of at least six characters, the other fields
  optional).
\<close>

record UserCreate =
  uc_username :: string
  uc_email :: "string option"
  uc_name :: "string option"
  uc_avatar_url :: "string option"
  uc_bio :: "string option"
  uc_password :: string

definition base_url :: string where
  "base_url = ''https://slaphappy-sylas-museful.ngrok-free.dev''"

definition last_segment :: "string \<Rightarrow> string" where
  "last_segment p = rev (takeWhile (\<lambda>c. c \<noteq> CHR ''/'') (rev p))"

definition build_avatar_url :: "string option \<Rightarrow> string option" where
  "build_avatar_url avatar_path =
     (case avatar_path of
        None \<Rightarrow> None
      | Some p \<Rightarrow>
          if p = [] then None
          else if take 4 p = ''http'' then Some p
          else Some (base_url @ ''/static/uploads/'' @ last_segment p))"

text \<open>
  \<^verbatim>\<open>create_user\<close> (\<^verbatim>\<open>POST /api/users/\<close>) starts with
  \<^verbatim>\<open>session.exec\<close>, which raises. What follows is not reached: the row it builds
  has \<^verbatim>\<open>password_hash=user_data.password\<close>, and its \<^verbatim>\<open>session.commit()\<close> is
  not awaited, so nothing would be stored.
\<close>

definition create_user :: "db \<Rightarrow> int \<Rightarrow> UserCreate \<Rightarrow> (failure + User) \<times> db" where
  "create_user d now user_data =
     (case session_exec of
        Inl e \<Rightarrow> (Inl (Unhandled e), d)
      | Inr (Some existing_user) \<Rightarrow> (Inl (HTTPException 400 ''Username already exists''), d)
      | Inr None \<Rightarrow>
          (let new_user = new_User now (uc_username user_data) (uc_email user_data)
                            (uc_password user_data) (uc_name user_data)
                            (uc_avatar_url user_data) (uc_bio user_data)
           in (Inr (new_user\<lparr>avatar_url := build_avatar_url (avatar_url new_user)\<rparr>), d)))"

text \<open>
  \<^verbatim>\<open>register_user\<close> (\<^verbatim>\<open>POST /api/auth/register\<close>) hashes the password first and
  answers an \<^verbatim>\<open>IntegrityError\<close> of the commit with a rollback and a 400.
\<close>

definition register_user ::
  "CryptContext \<Rightarrow> string \<Rightarrow> db \<Rightarrow> int \<Rightarrow> UserCreate \<Rightarrow> (failure + User) \<times> db" where
  "register_user pwd_context salt d now user_data =
     (case find (\<lambda>u. username u = uc_username user_data) (users d) of
        Some existing_user \<Rightarrow> (Inl (HTTPException 400 ''Username already exists''), d)
      | None \<Rightarrow>
          (let hashed_pw = hash_password pwd_context salt (uc_password user_data) in
           case session_add_commit d
                  (new_User now (uc_username user_data) (uc_email user_data) hashed_pw
                     (uc_name user_data) (uc_avatar_url user_data) (uc_bio user_data)) of
             (Inl e, d') \<Rightarrow>
               if e = IntegrityError
               then (Inl (HTTPException 400 ''Username or email already exists''), d')
               else (Inl (Unhandled e), d')
           | (Inr new_user, d') \<Rightarrow> (Inr new_user, d')))"

text \<open>
  \<^verbatim>\<open>login\<close> (\<^verbatim>\<open>POST /api/auth/login\<close>): \<^verbatim>\<open>verify_password\<close> is called on the
  stored \<^verbatim>\<open>password_hash\<close> outside any \<^verbatim>\<open>try\<close>.
\<close>

definition login ::
  "CryptContext \<Rightarrow> (claims \<Rightarrow> string) \<Rightarrow> int \<Rightarrow> string \<Rightarrow> string \<Rightarrow> db \<Rightarrow>
   failure + (string \<times> string)" where
  "login pwd_context jwt_encode now form_username form_password d =
     (case find (\<lambda>u. username u = form_username) (users d) of
        None \<Rightarrow> Inl (HTTPException 401 ''Invalid username or password'')
      | Some user \<Rightarrow>
          (case verify_password pwd_context form_password (password_hash user) of
             Inl e \<Rightarrow> Inl (Unhandled e)
           | Inr ok \<Rightarrow>
               if \<not> ok then Inl (HTTPException 401 ''Invalid username or password'')
               else Inr (create_access_token jwt_encode now [(''sub'', PyStr (username user))]
                           (Some (ACCESS_TOKEN_EXPIRE_MINUTES * 60000000)),
                         ''bearer'')))"

text \<open>
  \<^verbatim>\<open>update_user\<close> and \<^verbatim>\<open>delete_user\<close> of app/routers/users.py declare no
  \<^verbatim>\<open>Depends(get_current_user)\<close> and no token parameter. A field of
  \<^verbatim>\<open>UserUpdate\<close> is either absent from the body (\<open>Unset\<close>, dropped by
  \<^verbatim>\<open>dict(exclude_unset=True)\<close>) or provided, possibly as null.
\<close>

datatype 'a field = Unset | Provided 'a

record UserUpdate =
  uu_username :: "string option field"
  uu_email :: "string option field"
  uu_name :: "string option field"
  uu_bio :: "string option field"
  uu_avatar_url :: "string option field"

definition no_update_fields :: "UserUpdate \<Rightarrow> bool" where
  "no_update_fields user_data =
     (uu_username user_data = Unset \<and> uu_email user_data = Unset \<and> uu_name user_data = Unset
      \<and> uu_bio user_data = Unset \<and> uu_avatar_url user_data = Unset)"

text \<open>
  \<^verbatim>\<open>user = session.get(User, user_id)\<close> is not awaited: \<open>user\<close> is a coroutine
  object whatever the id, so the 404 is never raised. With no field provided the
  handler raises its 400; otherwise the first \<^verbatim>\<open>setattr(user, key, value)\<close> raises
  \<^verbatim>\<open>AttributeError\<close>. Nothing is written.
\<close>

definition update_user :: "int \<Rightarrow> UserUpdate \<Rightarrow> db \<Rightarrow> (failure + User) \<times> db" where
  "update_user uid user_data d =
     (let user = Coroutine in
      if \<not> truthy user then (Inl (HTTPException 404 ''User not found''), d)
      else if no_update_fields user_data
      then (Inl (HTTPException 400 ''No fields provided for update''), d)
      else (Inl (Unhandled AttributeError), d))"

text \<open>
  In \<^verbatim>\<open>delete_user\<close> neither \<^verbatim>\<open>session.delete(user)\<close> nor
  \<^verbatim>\<open>session.commit()\<close> is awaited, and building the answer reads
  \<^verbatim>\<open>user.username\<close> on the coroutine object, which raises.
\<close>

definition delete_user :: "int \<Rightarrow> db \<Rightarrow> (failure + (string \<times> string)) \<times> db" where
  "delete_user uid d =
     (let user = Coroutine in
      if \<not> truthy user then (Inl (HTTPException 404 ''User not found''), d)
      else (Inl (Unhandled AttributeError), d))"

text \<open>
  The two routes as the framework serves them: whatever \<^verbatim>\<open>Authorization\<close> header
  the request carries (none, or any bearer token) is not read.
\<close>

definition update_user_endpoint ::
  "string option \<Rightarrow> int \<Rightarrow> UserUpdate \<Rightarrow> db \<Rightarrow> (failure + User) \<times> db" where
  "update_user_endpoint authorization uid user_data d = update_user uid user_data d"

definition delete_user_endpoint ::
  "string option \<Rightarrow> int \<Rightarrow> db \<Rightarrow> (failure + (string \<times> string)) \<times> db" where
  "delete_user_endpoint authorization uid d = delete_user uid d"

section \<open>Reports (app/schemas.py, app/routers/reports.py)\<close>

text \<open>
  Decimal text of an integer: Python's \<^verbatim>\<open>str\<close> of an \<^verbatim>\<open>int\<close>.
\<close>

function str_nat :: "nat \<Rightarrow> string" where
  "str_nat n =
     (if n < 10 then [''0123456789'' ! n]
      else str_nat (n div 10) @ [''0123456789'' ! (n mod 10)])"
  by pat_completeness auto
termination
  by (relation "measure id") auto

declare str_nat.simps [simp del]

definition str_int :: "int \<Rightarrow> string" where
  "str_int i = (if i < 0 then CHR ''-'' # str_nat (nat (- i)) else str_nat (nat i))"

text \<open>
  The request body of \<^verbatim>\<open>POST /api/reports/\<close> as pydantic sees it: each field after
  type coercion, \<open>None\<close> when it is missing or not of its type. \<^verbatim>\<open>ReportCreate\<close>
  requires every field (also a \<^verbatim>\<open>user_id\<close>, which the handler never reads),
  \<^verbatim>\<open>place_name\<close> of at most 100 characters, \<^verbatim>\<open>crowd_status\<close> with
  \<^verbatim>\<open>ge=1, le=3\<close> and \<^verbatim>\<open>user_id\<close> of at most 50 characters. The framework
  builds the model before it calls the handler and answers a failure with a
  request-validation error.
\<close>

record report_body =
  body_lat :: "real option"
  body_lon :: "real option"
  body_place_name :: "string option"
  body_crowd_status :: "int option"
  body_decibel_level :: "real option"
  body_vibe_tags :: "string list option"
  body_user_id :: "string option"

record ReportCreate =
  rc_lat :: real
  rc_lon :: real
  rc_place_name :: string
  rc_crowd_status :: int
  rc_decibel_level :: real
  rc_vibe_tags :: "string list"
  rc_user_id :: string

definition ReportCreate_validate :: "report_body \<Rightarrow> failure + ReportCreate" where
  "ReportCreate_validate body =
     (case (body_lat body, body_lon body, body_place_name body, body_crowd_status body,
            body_decibel_level body, body_vibe_tags body, body_user_id body) of
        (Some la, Some lo, Some pn, Some cs, Some dl, Some vt, Some ui) \<Rightarrow>
          if length pn \<le> 100 \<and> 1 \<le> cs \<and> cs \<le> 3 \<and> length ui \<le> 50
          then Inr \<lparr>rc_lat = la, rc_lon = lo, rc_place_name = pn, rc_crowd_status = cs,
                    rc_decibel_level = dl, rc_vibe_tags = vt, rc_user_id = ui\<rparr>
          else Inl RequestValidationError
      | _ \<Rightarrow> Inl RequestValidationError)"

record ReportRead =
  rr_id :: int
  rr_place_name :: string
  rr_crowd_status :: int
  rr_decibel_level :: real
  rr_vibe_tags :: "string list"
  rr_user_id :: string
  rr_timestamp :: int
  rr_latitude :: "real option"
  rr_longitude :: "real option"

text \<open>
  The statements of app/routers/reports.py are raw SQL whose parameters the driver
  (asyncpg) encodes for the type of their column: an integer argument for a character
  column, or an argument for the 32-bit integer column \<^verbatim>\<open>id\<close> that is out of
  range, is refused before anything is executed, and the handler's
  \<^verbatim>\<open>except Exception\<close> answers the error with a 500 whose detail is its message.
\<close>

definition int4 :: "int \<Rightarrow> bool" where
  "int4 i = (- 2147483648 \<le> i \<and> i \<le> 2147483647)"

text \<open>
  The \<^verbatim>\<open>INSERT ... RETURNING\<close> of \<^verbatim>\<open>submit_report\<close>, given the argument bound
  to \<^verbatim>\<open>user_id\<close>. With a text argument the store assigns the id and the timestamp,
  stores the location \<^verbatim>\<open>ST_MakePoint(lon, lat)\<close> and returns the row.
\<close>

definition execute_insert :: "db \<Rightarrow> int \<Rightarrow> ReportCreate \<Rightarrow> pyval \<Rightarrow> exn + (Report \<times> db)" where
  "execute_insert d now report user_id_arg =
     (case user_id_arg of
        PyInt i \<Rightarrow> Inl DBAPIError
      | PyStr uid \<Rightarrow>
          (let row = \<lparr>r_id = next_report_id d,
                      location = ST_MakePoint (rc_lon report) (rc_lat report),
                      place_name = rc_place_name report,
                      crowd_status = rc_crowd_status report,
                      decibel_level = rc_decibel_level report,
                      vibe_tags = rc_vibe_tags report,
                      user_id = uid,
                      timestamp = now\<rparr>
           in Inr (row, d\<lparr>reports := reports d @ [row],
                          next_report_id := next_report_id d + 1\<rparr>)))"

text \<open>
  \<^verbatim>\<open>submit_report\<close> binds \<^verbatim>\<open>user_id\<close> to \<^verbatim>\<open>current_user.id\<close>, an
  integer, so its insert is refused and the handler answers 500 with nothing stored.
\<close>

definition submit_report ::
  "int \<Rightarrow> ReportCreate \<Rightarrow> User \<Rightarrow> db \<Rightarrow> (failure + ReportRead) \<times> db" where
  "submit_report now report current_user d =
     (case execute_insert d now report (PyInt (u_id current_user)) of
        Inl exc \<Rightarrow> (Inl (HTTPException_exc 500 [] exc), d)
      | Inr (row, d') \<Rightarrow>
          (Inr \<lparr>rr_id = r_id row, rr_place_name = place_name row,
                 rr_crowd_status = crowd_status row, rr_decibel_level = decibel_level row,
                 rr_vibe_tags = vibe_tags row, rr_user_id = user_id row,
                 rr_timestamp = timestamp row,
                 rr_latitude = Some (ST_Y (location row)),
                 rr_longitude = Some (ST_X (location row))\<rparr>, d'))"

text \<open>The request once the caller is resolved: body validation, then the handler.\<close>

definition submit_report_request ::
  "int \<Rightarrow> report_body \<Rightarrow> User \<Rightarrow> db \<Rightarrow> (failure + ReportRead) \<times> db" where
  "submit_report_request now body current_user d =
     (case ReportCreate_validate body of
        Inl e \<Rightarrow> (Inl e, d)
      | Inr report \<Rightarrow> submit_report now report current_user d)"

definition submit_report_endpoint ::
  "(string \<Rightarrow> exn + claims) \<Rightarrow> int \<Rightarrow> string \<Rightarrow> report_body \<Rightarrow> db \<Rightarrow>
   (failure + ReportRead) \<times> db" where
  "submit_report_endpoint jwt_decode now token body d =
     Depends (get_current_user jwt_decode d token) (submit_report_request now body) d"

text \<open>
  \<^verbatim>\<open>delete_report\<close>, the handler: a \<^verbatim>\<open>report_id\<close> outside the 32-bit range
  is refused by the driver (500); otherwise the owner row's \<^verbatim>\<open>user_id\<close> (text, read
  from the character column) is compared with \<^verbatim>\<open>current_user.id\<close> (an integer)
  by Python's \<^verbatim>\<open>!=\<close>. Through the route the handler runs only once
  \<^verbatim>\<open>get_current_user\<close> has returned a user.
\<close>

definition delete_report ::
  "int \<Rightarrow> User \<Rightarrow> db \<Rightarrow> (failure + (string \<times> string)) \<times> db" where
  "delete_report report_id current_user d =
     (if \<not> int4 report_id then (Inl (HTTPException_exc 500 [] DBAPIError), d)
      else
        (case find (\<lambda>r. r_id r = report_id) (reports d) of
           None \<Rightarrow> (Inl (HTTPException 404 ''Report not found''), d)
         | Some owner_row \<Rightarrow>
             if py_ne (PyStr (user_id owner_row)) (PyInt (u_id current_user))
             then (Inl (HTTPException 403 ''You can only delete your own reports''), d)
             else (Inr (''success'', ''Report '' @ str_int report_id @ '' deleted successfully''),
                   d\<lparr>reports := filter (\<lambda>r. r_id r \<noteq> report_id) (reports d)\<rparr>)))"

definition delete_report_endpoint ::
  "(string \<Rightarrow> exn + claims) \<Rightarrow> string \<Rightarrow> int \<Rightarrow> db \<Rightarrow> (failure + (string \<times> string)) \<times> db" where
  "delete_report_endpoint jwt_decode token report_id d =
     Depends (get_current_user jwt_decode d token) (delete_report report_id) d"

text \<open>
  \<^verbatim>\<open>update_current_user_profile\<close> (\<^verbatim>\<open>PUT /api/auth/me\<close>). The suffix of the
  uploaded file's name (\<^verbatim>\<open>pathlib\<close>), the random file name
  (\<^verbatim>\<open>secrets.token_hex\<close>) and the outcome of writing the file (the exception it
  raises, if any) are parameters; the upload directory is taken to exist. \<^verbatim>\<open>name\<close>, \<^verbatim>\<open>bio\<close> and
  \<^verbatim>\<open>avatar_url\<close> carry no constraint, so the commit cannot fail.
\<close>

record UploadFile =
  filename :: string
  contents :: string

definition update_current_user_profile ::
  "(string \<Rightarrow> string) \<Rightarrow> string \<Rightarrow> (string \<Rightarrow> string \<Rightarrow> exn option) \<Rightarrow>
   string option \<Rightarrow> string option \<Rightarrow> UploadFile option \<Rightarrow> UploadFile option \<Rightarrow>
   User \<Rightarrow> db \<Rightarrow> (failure + User) \<times> db" where
  "update_current_user_profile suffix token_hex save form_name form_bio avatar avatar_url_file
     current_user d =
     (let uploaded_file = (case avatar of Some f \<Rightarrow> Some f | None \<Rightarrow> avatar_url_file);
          safe_name = (case uploaded_file of
                         None \<Rightarrow> None
                       | Some f \<Rightarrow> Some (token_hex @ suffix (filename f)));
          saved = (case (uploaded_file, safe_name) of
                     (Some f, Some n) \<Rightarrow> save (''static/uploads/'' @ n) (contents f)
                   | _ \<Rightarrow> None)
      in case saved of
           Some exc \<Rightarrow> (Inl (HTTPException_exc 500 ''Failed to save uploaded file: '' exc), d)
         | None \<Rightarrow>
             if form_name = None \<and> form_bio = None \<and> safe_name = None
             then (Inl (HTTPException 400 ''No fields provided''), d)
             else
               (let row = current_user
                      \<lparr>name := (case form_name of None \<Rightarrow> name current_user | Some v \<Rightarrow> Some v),
                       bio := (case form_bio of None \<Rightarrow> bio current_user | Some v \<Rightarrow> Some v),
                       avatar_url := (case safe_name of
                                        None \<Rightarrow> avatar_url current_user
                                      | Some n \<Rightarrow> Some (''/static/uploads/'' @ n))\<rparr>
                in (Inr row,
                    d\<lparr>users := map (\<lambda>u. if u_id u = u_id row then row else u) (users d)\<rparr>)))"

definition update_current_user_profile_endpoint ::
  "(string \<Rightarrow> exn + claims) \<Rightarrow> string \<Rightarrow>
   (string \<Rightarrow> string) \<Rightarrow> string \<Rightarrow> (string \<Rightarrow> string \<Rightarrow> exn option) \<Rightarrow>
   string option \<Rightarrow> string option \<Rightarrow> UploadFile option \<Rightarrow> UploadFile option \<Rightarrow>
   db \<Rightarrow> (failure + User) \<times> db" where
  "update_current_user_profile_endpoint jwt_decode token suffix token_hex save form_name form_bio
     avatar avatar_url_file d =
     Depends (auth_get_current_user jwt_decode d token)
       (update_current_user_profile suffix token_hex save form_name form_bio avatar
          avatar_url_file) d"

section \<open>Nearby reports (app/routers/reports.py)\<close>

text \<open>
  PostGIS is a parameter: \<open>ST_Distance\<close> is the geodesic distance in metres of two
  geography points and \<open>ST_DWithin\<close> the within-distance predicate of the
  \<^verbatim>\<open>WHERE\<close> clause.
\<close>

record PostGIS =
  ST_Distance :: "point \<Rightarrow> point \<Rightarrow> real"
  ST_DWithin :: "point \<Rightarrow> point \<Rightarrow> real \<Rightarrow> bool"

text \<open>
  \<^verbatim>\<open>SELECT DISTINCT ON (place_name) ... ORDER BY place_name, "timestamp" DESC\<close>:
  the matching rows are sorted by place name and, within one place name, by timestamp
  descending; of each run of rows with the same place name the first is kept. Place
  names are ordered lexicographically here (the database orders them by its
  collation); rows that tie on both keys stay in table order.
\<close>

definition order_by_key :: "Report \<Rightarrow> string \<times> int" where
  "order_by_key r = (place_name r, - timestamp r)"

fun distinct_on :: "Report list \<Rightarrow> Report list" where
  "distinct_on [] = []"
| "distinct_on [r] = [r]"
| "distinct_on (r # s # rs) =
     (if place_name s = place_name r then distinct_on (r # rs)
      else r # distinct_on (s # rs))"

definition nearby_query :: "PostGIS \<Rightarrow> db \<Rightarrow> real \<Rightarrow> real \<Rightarrow> real \<Rightarrow> (Report \<times> real) list" where
  "nearby_query gis d lon lat radius_meters =
     (let here = ST_MakePoint lon lat;
          matching = filter (\<lambda>r. ST_DWithin gis (location r) here radius_meters) (reports d);
          ordered = sort_key order_by_key matching
      in map (\<lambda>r. (r, ST_Distance gis (location r) here / 1000)) (distinct_on ordered))"

text \<open>
  \<^verbatim>\<open>round(x, 2)\<close> rounds a double; on the reals that stand for the floats here it
  is a parameter, \<open>py_round2\<close>.
\<close>

record NearbyRow =
  nr_id :: int
  nr_place_name :: string
  nr_crowd_status :: int
  nr_decibel_level :: real
  nr_vibe_tags :: "string list"
  nr_user_id :: string
  nr_timestamp :: int
  nr_latitude :: real
  nr_longitude :: real
  nr_distance_km :: real

record NearbyResponse =
  resp_status :: string
  resp_count :: nat
  resp_radius_km :: real
  resp_data :: "NearbyRow list"

text \<open>
  The loop over the result rows. \<^verbatim>\<open>vibe_tags\<close> is an array column, so the row's
  value is a list and the \<^verbatim>\<open>isinstance(vt, (str, bytes))\<close> branch is not taken.
\<close>

definition nearby_row :: "(real \<Rightarrow> real) \<Rightarrow> Report \<times> real \<Rightarrow> NearbyRow" where
  "nearby_row py_round2 rd =
     (case rd of (r, distance_km) \<Rightarrow>
        \<lparr>nr_id = r_id r, nr_place_name = place_name r, nr_crowd_status = crowd_status r,
         nr_decibel_level = decibel_level r, nr_vibe_tags = vibe_tags r,
         nr_user_id = user_id r, nr_timestamp = timestamp r,
         nr_latitude = ST_Y (location r), nr_longitude = ST_X (location r),
         nr_distance_km = py_round2 distance_km\<rparr>)"

definition get_nearby_reports ::
  "(real \<Rightarrow> real) \<Rightarrow> PostGIS \<Rightarrow> db \<Rightarrow> real \<Rightarrow> real \<Rightarrow> real \<Rightarrow> NearbyResponse" where
  "get_nearby_reports py_round2 gis d lat lon radius_km =
     (let rows = nearby_query gis d lon lat (radius_km * 1000);
          out = map (nearby_row py_round2) rows
      in \<lparr>resp_status = ''success'', resp_count = length out, resp_radius_km = radius_km,
          resp_data = out\<rparr>)"

text \<open>
  Whether a stored report matches the \<^verbatim>\<open>WHERE\<close> clause of a request, and the
  response row of a stored report.
\<close>

definition in_radius :: "PostGIS \<Rightarrow> real \<Rightarrow> real \<Rightarrow> real \<Rightarrow> Report \<Rightarrow> bool" where
  "in_radius gis lat lon radius_km r =
     ST_DWithin gis (location r) (ST_MakePoint lon lat) (radius_km * 1000)"

definition response_row ::
  "(real \<Rightarrow> real) \<Rightarrow> PostGIS \<Rightarrow> real \<Rightarrow> real \<Rightarrow> Report \<Rightarrow> NearbyRow" where
  "response_row py_round2 gis lat lon r =
     nearby_row py_round2 (r, ST_Distance gis (location r) (ST_MakePoint lon lat) / 1000)"

section \<open>Example inputs\<close>

text \<open>An empty store, and a request body used in the examples below.\<close>

definition empty_db :: db where
  "empty_db = \<lparr>users = [], reports = [], next_user_id = 1, next_report_id = 1\<rparr>"

definition bob_body :: UserCreate where
  "bob_body = \<lparr>uc_username = ''bob'', uc_email = None, uc_name = None,
                uc_avatar_url = None, uc_bio = None, uc_password = ''secret1''\<rparr>"


text \<open>
  Stand-ins for the three libraries, used only to run the examples below; every
  theorem is stated for arbitrary libraries. The password context marks its hashes
  with a prefix and raises \<^verbatim>\<open>UnknownHashError\<close> for any other string, the
  decoder knows one valid and one expired token, and distances are taken on a grid.
  The stores below hold rows as the tables can hold them; how a row got there is not
  part of an example.
\<close>

definition example_context :: CryptContext where
  "example_context =
     \<lparr>ctx_hash = (\<lambda>salt secret. ''$ex$'' @ salt @ ''$'' @ rev secret),
      ctx_verify = (\<lambda>secret h.
         if take 4 h = ''$ex$''
         then Inr (drop 1 (dropWhile (\<lambda>c. c \<noteq> CHR ''$'') (drop 4 h)) = rev secret)
         else Inl UnknownHashError)\<rparr>"

definition example_jwt_decode :: "string \<Rightarrow> exn + claims" where
  "example_jwt_decode token =
     (if token = ''token-alice'' then Inr [(''sub'', PyStr ''alice''), (''exp'', PyInt 1000)]
      else if token = ''token-expired'' then Inl ExpiredSignatureError
      else Inl JWTError)"

definition example_gis :: PostGIS where
  "example_gis =
     \<lparr>ST_Distance = (\<lambda>a b. 111000 * (\<bar>fst a - fst b\<bar> + \<bar>snd a - snd b\<bar>)),
      ST_DWithin = (\<lambda>a b r. 111000 * (\<bar>fst a - fst b\<bar> + \<bar>snd a - snd b\<bar>) \<le> r)\<rparr>"

definition alice :: User where
  "alice = \<lparr>u_id = 1, username = ''alice'', email = None, password_hash = ''$ex$s$1terces'',
            name = None, avatar_url = None, bio = None, joined_at = 0, is_active = True\<rparr>"

definition alice_db :: db where
  "alice_db = \<lparr>users = [alice], reports = [], next_user_id = 2, next_report_id = 1\<rparr>"


definition cafe_report :: Report where
  "cafe_report = \<lparr>r_id = 1, location = (- 73, 40), place_name = ''Cafe X'', crowd_status = 2,
                   decibel_level = 55.5, vibe_tags = [''quiet'', ''wifi''], user_id = ''1'',
                   timestamp = 100\<rparr>"

definition cafe_db :: db where
  "cafe_db = \<lparr>users = [alice], reports = [cafe_report], next_user_id = 2, next_report_id = 2\<rparr>"

definition bob_row :: User where
  "bob_row = \<lparr>u_id = 1, username = ''bob'', email = None, password_hash = ''$ex$s$1terces'',
              name = None, avatar_url = None, bio = None, joined_at = 0, is_active = True\<rparr>"

definition bob_db :: db where
  "bob_db = \<lparr>users = [bob_row], reports = [], next_user_id = 2, next_report_id = 1\<rparr>"

text \<open>
  Four stored reports around the query point (0, 0): two of \<open>Cafe X\<close> (the older one
  exactly 111 km away on the grid, the newer one closer), one of \<open>Bar Y\<close> exactly
  111 km away, and one far away.
\<close>

definition old_cafe :: Report where
  "old_cafe = \<lparr>r_id = 1, location = (0, 1), place_name = ''Cafe X'', crowd_status = 1,
                decibel_level = 40, vibe_tags = [], user_id = ''1'', timestamp = 100\<rparr>"

definition new_cafe :: Report where
  "new_cafe = \<lparr>r_id = 2, location = (0, 1 / 2), place_name = ''Cafe X'', crowd_status = 3,
                decibel_level = 70, vibe_tags = [''loud''], user_id = ''1'', timestamp = 200\<rparr>"

definition bar :: Report where
  "bar = \<lparr>r_id = 3, location = (1, 0), place_name = ''Bar Y'', crowd_status = 2,
           decibel_level = 60, vibe_tags = [], user_id = ''1'', timestamp = 150\<rparr>"

definition far_away :: Report where
  "far_away = \<lparr>r_id = 4, location = (5, 5), place_name = ''Far Z'', crowd_status = 2,
                decibel_level = 60, vibe_tags = [], user_id = ''1'', timestamp = 300\<rparr>"

definition nearby_db :: db where
  "nearby_db = \<lparr>users = [alice], reports = [old_cafe, new_cafe, bar, far_away],
                 next_user_id = 2, next_report_id = 5\<rparr>"

definition example_jwt_encode :: "claims \<Rightarrow> string" where
  "example_jwt_encode payload =
     (if map_of payload ''sub'' = Some (PyStr ''alice'') then ''token-alice'' else ''token-other'')"


text \<open>
  A store with a user row whose \<^verbatim>\<open>password_hash\<close> column holds a string that is no
  hash of the password context (a row that was not written by \<^verbatim>\<open>register_user\<close>),
  and a rounding to hundredths for the responses of the examples.
\<close>

definition legacy_row :: User where
  "legacy_row = bob_row\<lparr>password_hash := ''secret1''\<rparr>"

definition legacy_db :: db where
  "legacy_db = \<lparr>users = [legacy_row], reports = [], next_user_id = 2, next_report_id = 1\<rparr>"

definition example_round2 :: "real \<Rightarrow> real" where
  "example_round2 x = of_int \<lfloor>x * 100 + 1 / 2\<rfloor> / 100"

section \<open>Invalid tokens\<close>

lemma decoder_exception_unhandled:
  assumes "jwt_decode token = Inl e"
  shows "get_current_user jwt_decode d token = Inl (Unhandled e)"
    and "auth_get_current_user jwt_decode d token = Inl (Unhandled e)"
  using assms
  by (simp_all add: get_current_user_def auth_get_current_user_def decode_access_token_def)

text \<open>
  A token that decodes to a payload with a subject reaches \<^verbatim>\<open>session.exec\<close>: the
  dependency of the report routes never returns a user.
\<close>

lemma decoded_token_attribute_error:
  assumes "jwt_decode token = Inr payload" and "map_of payload ''sub'' = Some uname"
  shows "get_current_user jwt_decode d token = Inl (Unhandled AttributeError)"
proof -
  have "payload \<noteq> []" using assms(2) by auto
  then show ?thesis
    using assms by (simp add: get_current_user_def decode_access_token_def session_exec_def)
qed

lemma get_current_user_never_resolves:
  "get_current_user jwt_decode d token \<noteq> Inr user"
  by (simp add: get_current_user_def decode_access_token_def session_exec_def
      split: sum.splits option.splits)

text \<open>The only way to the 401 of the dependency: a payload that decoded and has no subject.\<close>

lemma unauthorized_only_without_sub:
  assumes "get_current_user jwt_decode d token = Inl (HTTPException 401 detail)"
  shows "\<exists>payload. jwt_decode token = Inr payload \<and> map_of payload ''sub'' = None"
  using assms
  by (auto simp: get_current_user_def decode_access_token_def
      split: sum.splits if_splits option.splits)

text \<open>
  C1. A bearer token that is malformed, badly signed or expired makes every
  authenticated operation fail uniformly with Unauthorized (401). The code does
  otherwise: for such a token the decoder raises, \<^verbatim>\<open>decode_access_token\<close> raises it
  again and neither \<^verbatim>\<open>get_current_user\<close> catches it, so submitting a report,
  deleting a report and reading or updating the current user all end in the unhandled
  exception (status 500), the store untouched; no 401 is produced.
\<close>

theorem invalid_token_is_unhandled:
  assumes "jwt_decode token = Inl e"
  shows "get_current_user jwt_decode d token = Inl (Unhandled e)
       \<and> auth_get_current_user jwt_decode d token = Inl (Unhandled e)
       \<and> submit_report_endpoint jwt_decode now token body d = (Inl (Unhandled e), d)
       \<and> delete_report_endpoint jwt_decode token report_id d = (Inl (Unhandled e), d)
       \<and> update_current_user_profile_endpoint jwt_decode token suffix token_hex save
            form_name form_bio avatar avatar_url_file d = (Inl (Unhandled e), d)
       \<and> status_code (Unhandled e) = 500"
  using assms decoder_exception_unhandled[of jwt_decode token e d]
  by (simp add: submit_report_endpoint_def delete_report_endpoint_def
      update_current_user_profile_endpoint_def Depends_def)

theorem invalid_token_is_unhandled_witness:
  "example_jwt_decode ''token-expired'' = Inl ExpiredSignatureError
   \<and> get_current_user example_jwt_decode cafe_db ''token-expired''
       = Inl (Unhandled ExpiredSignatureError)
   \<and> delete_report_endpoint example_jwt_decode ''token-expired'' 1 cafe_db
       = (Inl (Unhandled ExpiredSignatureError), cafe_db)
   \<and> status_code (Unhandled ExpiredSignatureError) = 500"
proof -
  have expired: "example_jwt_decode ''token-expired'' = Inl ExpiredSignatureError"
    by (simp add: example_jwt_decode_def)
  show ?thesis
    using expired
      invalid_token_is_unhandled[where jwt_decode = example_jwt_decode
        and token = "''token-expired''" and e = ExpiredSignatureError and d = cafe_db
        and report_id = 1]
    by simp
qed

section \<open>Deleting a report\<close>

text \<open>
  Through the route no delete request reaches the handler: the dependency fails for
  every token, so every request fails and leaves the store as it was.
\<close>

lemma delete_report_endpoint_fails:
  "\<exists>e. delete_report_endpoint jwt_decode token report_id d = (Inl e, d)"
proof (cases "get_current_user jwt_decode d token")
  case (Inl e)
  then show ?thesis by (simp add: delete_report_endpoint_def Depends_def)
next
  case (Inr user)
  then show ?thesis using get_current_user_never_resolves by blast
qed

text \<open>
  The handler on its own, given a user: an id in range that no report has is answered
  404; and since a stored \<^verbatim>\<open>user_id\<close> is text and \<^verbatim>\<open>current_user.id\<close> an
  integer, the ownership test never passes, so every existing report is refused to
  every user and the \<^verbatim>\<open>DELETE\<close> statement is never reached.
\<close>

lemma delete_report_not_found:
  assumes "int4 report_id" and "\<forall>r \<in> set (reports d). r_id r \<noteq> report_id"
  shows "delete_report report_id current_user d = (Inl (HTTPException 404 ''Report not found''), d)"
proof -
  have "find (\<lambda>r. r_id r = report_id) (reports d) = None"
    using assms(2) by (simp add: find_None_iff)
  then show ?thesis using assms(1) by (simp add: delete_report_def)
qed

lemma delete_report_existing_forbidden:
  assumes "int4 report_id" and "r \<in> set (reports d)" and "r_id r = report_id"
  shows "delete_report report_id current_user d
           = (Inl (HTTPException 403 ''You can only delete your own reports''), d)"
proof -
  have "find (\<lambda>r. r_id r = report_id) (reports d) \<noteq> None"
    using assms(2,3) by (auto simp: find_None_iff)
  then show ?thesis using assms(1) by (auto simp: delete_report_def py_ne_def)
qed

lemma delete_report_never_succeeds:
  "fst (delete_report report_id current_user d) \<noteq> Inr ok"
  by (simp add: delete_report_def py_ne_def split: option.splits)

text \<open>
  C2. Deleting a report that does not exist fails with NotFound, deleting another
  user's report fails with Forbidden, and deleting as the owner succeeds and removes the
  report. The code does otherwise. With alice's valid token, \<^verbatim>\<open>DELETE\<close> of report 1
  from a store without reports is answered with the unhandled \<^verbatim>\<open>AttributeError\<close>
  of the dependency (500) and not 404; the same request on a store where report 1 is
  hers (its \<^verbatim>\<open>user_id\<close> is the text of her id) is answered the same way and the
  report stays. The handler itself, called with alice as the user, refuses her own
  report with 403.
\<close>

theorem delete_report_fails_for_owner:
  "reports alice_db = []
   \<and> delete_report_endpoint example_jwt_decode ''token-alice'' 1 alice_db
       = (Inl (Unhandled AttributeError), alice_db)
   \<and> cafe_report \<in> set (reports cafe_db) \<and> r_id cafe_report = 1
   \<and> user_id cafe_report = str_int (u_id alice)
   \<and> delete_report_endpoint example_jwt_decode ''token-alice'' 1 cafe_db
       = (Inl (Unhandled AttributeError), cafe_db)
   \<and> status_code (Unhandled AttributeError) = 500
   \<and> delete_report 1 alice cafe_db
       = (Inl (HTTPException 403 ''You can only delete your own reports''), cafe_db)"
  by (simp add: delete_report_endpoint_def Depends_def get_current_user_def
      decode_access_token_def example_jwt_decode_def session_exec_def
      alice_db_def alice_def cafe_db_def cafe_report_def str_int_def str_nat.simps
      delete_report_def int4_def py_ne_def)

section \<open>Nearby reports: one row per place, the latest\<close>

text \<open>
  What \<^verbatim>\<open>DISTINCT ON\<close> does to a list sorted by place name and, within a place
  name, by timestamp descending.
\<close>

lemma distinct_on_head: "\<exists>ys. distinct_on (r # rs) = r # ys"
  by (induction rs) auto

lemma distinct_on_subset: "set (distinct_on xs) \<subseteq> set xs"
  by (induction xs rule: distinct_on.induct) auto

lemma sorted_key_drop_second:
  assumes "sorted (map order_by_key (r # s # rs))"
  shows "sorted (map order_by_key (r # rs))"
  using assms by auto

lemma distinct_on_covers:
  assumes "sorted (map order_by_key xs)" and "r \<in> set xs"
  shows "\<exists>k \<in> set (distinct_on xs). place_name k = place_name r \<and> timestamp r \<le> timestamp k"
  using assms
proof (induction xs rule: distinct_on.induct)
  case 1
  then show ?case by simp
next
  case (2 a)
  then show ?case by simp
next
  case (3 a s rs)
  show ?case
  proof (cases "place_name s = place_name a")
    case True
    have srt: "sorted (map order_by_key (a # rs))"
      using "3.prems"(1) by auto
    show ?thesis
    proof (cases "r = s")
      case rs: True
      have "order_by_key a \<le> order_by_key s"
        using "3.prems"(1) by simp
      then have "timestamp s \<le> timestamp a"
        using True by (simp add: order_by_key_def)
      moreover obtain ys where "distinct_on (a # rs) = a # ys"
        using distinct_on_head by blast
      ultimately show ?thesis
        using True rs by auto
    next
      case False
      then have "r \<in> set (a # rs)"
        using "3.prems"(2) by auto
      from "3.IH"(1)[OF True srt this] show ?thesis
        using True by simp
    qed
  next
    case False
    have srt: "sorted (map order_by_key (s # rs))"
      using "3.prems"(1) by auto
    show ?thesis
    proof (cases "r = a")
      case True
      then show ?thesis using False by auto
    next
      case ra: False
      then have "r \<in> set (s # rs)"
        using "3.prems"(2) by auto
      from "3.IH"(2)[OF False srt this] show ?thesis
        using False by auto
    qed
  qed
qed

lemma distinct_on_distinct:
  assumes "sorted (map order_by_key xs)"
  shows "distinct (map place_name (distinct_on xs))"
  using assms
proof (induction xs rule: distinct_on.induct)
  case 1
  then show ?case by simp
next
  case (2 a)
  then show ?case by simp
next
  case (3 a s rs)
  show ?case
  proof (cases "place_name s = place_name a")
    case True
    have "sorted (map order_by_key (a # rs))"
      using "3.prems" by auto
    from "3.IH"(1)[OF True this] show ?thesis
      using True by simp
  next
    case False
    have srt: "sorted (map order_by_key (s # rs))"
      using "3.prems" by auto
    have "place_name a \<noteq> place_name k" if "k \<in> set (s # rs)" for k
    proof -
      have "order_by_key a \<le> order_by_key s"
        using "3.prems" by simp
      then have "place_name a < place_name s"
        using False by (auto simp: order_by_key_def less_eq_prod_def)
      moreover have "order_by_key s \<le> order_by_key k"
        using srt that by auto
      then have "place_name s \<le> place_name k"
        by (auto simp: order_by_key_def less_eq_prod_def)
      ultimately show ?thesis by auto
    qed
    then have "place_name a \<notin> place_name ` set (distinct_on (s # rs))"
      using distinct_on_subset[of "s # rs"] by blast
    then show ?thesis
      using "3.IH"(2)[OF False srt] False by simp
  qed
qed

lemma nearby_data_eq:
  "resp_data (get_nearby_reports py_round2 gis d lat lon radius_km)
     = map (response_row py_round2 gis lat lon)
         (distinct_on (sort_key order_by_key
            (filter (in_radius gis lat lon radius_km) (reports d))))"
  by (simp add: get_nearby_reports_def nearby_query_def response_row_def[abs_def]
      in_radius_def[abs_def] Let_def comp_def)

lemma response_row_fields:
  "nr_id (response_row py_round2 gis lat lon r) = r_id r"
  "nr_place_name (response_row py_round2 gis lat lon r) = place_name r"
  "nr_timestamp (response_row py_round2 gis lat lon r) = timestamp r"
  "nr_latitude (response_row py_round2 gis lat lon r) = ST_Y (location r)"
  "nr_longitude (response_row py_round2 gis lat lon r) = ST_X (location r)"
  by (simp_all add: response_row_def nearby_row_def)

lemmas example_reports = old_cafe_def new_cafe_def bar_def far_away_def nearby_db_def

lemma example_nearby_data:
  "resp_data (get_nearby_reports example_round2 example_gis nearby_db 0 0 111)
     = [response_row example_round2 example_gis 0 0 bar,
        response_row example_round2 example_gis 0 0 new_cafe]"
  by (simp add: nearby_data_eq in_radius_def example_gis_def ST_MakePoint_def example_reports
      order_by_key_def)

text \<open>The response rows are the kept rows of the sorted matches, one response row each.\<close>

lemma nearby_places_distinct:
  "distinct (map nr_place_name (resp_data (get_nearby_reports py_round2 gis d lat lon radius_km)))"
proof -
  have names: "nr_place_name \<circ> response_row py_round2 gis lat lon = place_name"
    by (rule ext) (simp add: response_row_fields)
  have "sorted (map order_by_key
          (sort_key order_by_key (filter (in_radius gis lat lon radius_km) (reports d))))"
    by (rule sorted_sort_key)
  from distinct_on_distinct[OF this] show ?thesis
    by (simp add: nearby_data_eq names)
qed

lemma nearby_row_stored:
  assumes "row \<in> set (resp_data (get_nearby_reports py_round2 gis d lat lon radius_km))"
  shows "\<exists>r \<in> set (reports d). in_radius gis lat lon radius_km r
                                 \<and> row = response_row py_round2 gis lat lon r"
proof -
  from assms obtain k
    where "k \<in> set (distinct_on (sort_key order_by_key
                     (filter (in_radius gis lat lon radius_km) (reports d))))"
      and "row = response_row py_round2 gis lat lon k"
    by (auto simp: nearby_data_eq)
  moreover from this distinct_on_subset
  have "k \<in> set (sort_key order_by_key (filter (in_radius gis lat lon radius_km) (reports d)))"
    by blast
  ultimately show ?thesis by auto
qed

lemma nearby_latest:
  assumes "r \<in> set (reports d)" and "in_radius gis lat lon radius_km r"
  shows "\<exists>k \<in> set (reports d). in_radius gis lat lon radius_km k
           \<and> response_row py_round2 gis lat lon k
                 \<in> set (resp_data (get_nearby_reports py_round2 gis d lat lon radius_km))
           \<and> place_name k = place_name r \<and> timestamp r \<le> timestamp k"
proof -
  define matching where "matching = filter (in_radius gis lat lon radius_km) (reports d)"
  have srt: "sorted (map order_by_key (sort_key order_by_key matching))"
    by (rule sorted_sort_key)
  from assms have "r \<in> set (sort_key order_by_key matching)"
    by (simp add: matching_def)
  from distinct_on_covers[OF srt this]
  obtain k where k: "k \<in> set (distinct_on (sort_key order_by_key matching))"
    and same: "place_name k = place_name r" and le: "timestamp r \<le> timestamp k"
    by auto
  from k distinct_on_subset have "k \<in> set (sort_key order_by_key matching)"
    by blast
  then have "k \<in> set (reports d)" and "in_radius gis lat lon radius_km k"
    by (simp_all add: matching_def)
  moreover from k have "response_row py_round2 gis lat lon k
                          \<in> set (resp_data (get_nearby_reports py_round2 gis d lat lon radius_km))"
    by (simp add: nearby_data_eq matching_def)
  ultimately show ?thesis using same le by blast
qed

text \<open>
  C3. The nearby query never returns two rows with the same place name, and for each
  place name it returns exactly the row with the greatest creation timestamp among the
  reports of that place name within the radius: the place names of the response are
  pairwise distinct, every response row is the row of a stored report that matches the
  within-distance filter, and every stored report that matches the filter is
  represented by a response row of its place name whose timestamp is at least its own.
\<close>

theorem nearby_latest_per_place:
  "distinct (map nr_place_name (resp_data (get_nearby_reports py_round2 gis d lat lon radius_km)))
   \<and> (\<forall>row \<in> set (resp_data (get_nearby_reports py_round2 gis d lat lon radius_km)).
         \<exists>r \<in> set (reports d). in_radius gis lat lon radius_km r
                                  \<and> row = response_row py_round2 gis lat lon r)
   \<and> (\<forall>r \<in> set (reports d). in_radius gis lat lon radius_km r \<longrightarrow>
         (\<exists>row \<in> set (resp_data (get_nearby_reports py_round2 gis d lat lon radius_km)).
            nr_place_name row = place_name r \<and> timestamp r \<le> nr_timestamp row))"
proof (intro conjI ballI impI)
  show "distinct (map nr_place_name (resp_data (get_nearby_reports py_round2 gis d lat lon radius_km)))"
    by (rule nearby_places_distinct)
next
  fix row
  assume "row \<in> set (resp_data (get_nearby_reports py_round2 gis d lat lon radius_km))"
  then show "\<exists>r \<in> set (reports d). in_radius gis lat lon radius_km r
                                     \<and> row = response_row py_round2 gis lat lon r"
    by (rule nearby_row_stored)
next
  fix r
  assume "r \<in> set (reports d)" and "in_radius gis lat lon radius_km r"
  from nearby_latest[OF this]
  obtain k where "response_row py_round2 gis lat lon k
                    \<in> set (resp_data (get_nearby_reports py_round2 gis d lat lon radius_km))"
    and "place_name k = place_name r" and "timestamp r \<le> timestamp k"
    by blast
  then have "nr_place_name (response_row py_round2 gis lat lon k) = place_name r
             \<and> timestamp r \<le> nr_timestamp (response_row py_round2 gis lat lon k)"
    by (simp add: response_row_fields)
  with \<open>response_row py_round2 gis lat lon k \<in> _\<close>
  show "\<exists>row \<in> set (resp_data (get_nearby_reports py_round2 gis d lat lon radius_km)).
          nr_place_name row = place_name r \<and> timestamp r \<le> nr_timestamp row"
    by blast
qed

theorem nearby_latest_per_place_witness:
  "old_cafe \<in> set (reports nearby_db) \<and> in_radius example_gis 0 0 111 old_cafe
   \<and> distinct (map nr_place_name (resp_data (get_nearby_reports example_round2 example_gis nearby_db 0 0 111)))
   \<and> (\<exists>row \<in> set (resp_data (get_nearby_reports example_round2 example_gis nearby_db 0 0 111)).
         nr_place_name row = place_name old_cafe \<and> timestamp old_cafe \<le> nr_timestamp row)"
proof -
  have stored: "old_cafe \<in> set (reports nearby_db)"
    by (simp add: nearby_db_def)
  have near: "in_radius example_gis 0 0 111 old_cafe"
    by (simp add: in_radius_def example_gis_def ST_MakePoint_def old_cafe_def)
  from nearby_latest_per_place[of example_round2 example_gis nearby_db 0 0 111] stored near
  show ?thesis by blast
qed

section \<open>Nearby reports: the radius\<close>

lemma make_point_X_Y: "ST_MakePoint (ST_X p) (ST_Y p) = p"
  by (simp add: ST_MakePoint_def ST_X_def ST_Y_def)

lemma example_gis_contract:
  "\<forall>a b r. ST_DWithin example_gis a b r = (ST_Distance example_gis a b \<le> r)"
  by (simp add: example_gis_def)

text \<open>
  C4. Take \<open>ST_DWithin\<close> to be what PostGIS documents: true exactly when the
  distance is at most the given one. Then the nearby query never returns a report
  farther from the query point than \<open>radius_km * 1000\<close> metres, and a stored report
  exactly at that distance is included: it passes the within-distance filter, its place
  name is in the response with a row at least as recent, and the report itself is the
  row of its place whenever every other stored report of that place name within the
  radius is strictly older.
\<close>

theorem nearby_within_radius:
  assumes contract: "\<forall>a b r. ST_DWithin gis a b r = (ST_Distance gis a b \<le> r)"
  shows "(\<forall>row \<in> set (resp_data (get_nearby_reports py_round2 gis d lat lon radius_km)).
            ST_Distance gis (ST_MakePoint (nr_longitude row) (nr_latitude row))
              (ST_MakePoint lon lat) \<le> radius_km * 1000)
       \<and> (\<forall>r \<in> set (reports d).
            ST_Distance gis (location r) (ST_MakePoint lon lat) = radius_km * 1000
            \<longrightarrow> in_radius gis lat lon radius_km r
                \<and> (\<exists>row \<in> set (resp_data (get_nearby_reports py_round2 gis d lat lon radius_km)).
                      nr_place_name row = place_name r \<and> timestamp r \<le> nr_timestamp row)
                \<and> ((\<forall>k \<in> set (reports d).
                        k \<noteq> r \<and> place_name k = place_name r
                        \<and> ST_Distance gis (location k) (ST_MakePoint lon lat)
                              \<le> radius_km * 1000
                        \<longrightarrow> timestamp k < timestamp r)
                     \<longrightarrow> response_row py_round2 gis lat lon r
                           \<in> set (resp_data
                                    (get_nearby_reports py_round2 gis d lat lon radius_km))))"
proof -
  have near: "in_radius gis lat lon radius_km r
                = (ST_Distance gis (location r) (ST_MakePoint lon lat) \<le> radius_km * 1000)" for r
    unfolding in_radius_def using contract by blast
  have inside: "ST_Distance gis (ST_MakePoint (nr_longitude row) (nr_latitude row))
                  (ST_MakePoint lon lat) \<le> radius_km * 1000"
    if "row \<in> set (resp_data (get_nearby_reports py_round2 gis d lat lon radius_km))" for row
  proof -
    from nearby_row_stored[OF that]
    obtain k where "in_radius gis lat lon radius_km k"
      and "row = response_row py_round2 gis lat lon k"
      by blast
    then show ?thesis
      by (simp add: response_row_fields make_point_X_Y near)
  qed
  have boundary: "in_radius gis lat lon radius_km r
      \<and> (\<exists>row \<in> set (resp_data (get_nearby_reports py_round2 gis d lat lon radius_km)).
            nr_place_name row = place_name r \<and> timestamp r \<le> nr_timestamp row)
      \<and> ((\<forall>k \<in> set (reports d).
              k \<noteq> r \<and> place_name k = place_name r
              \<and> ST_Distance gis (location k) (ST_MakePoint lon lat) \<le> radius_km * 1000
              \<longrightarrow> timestamp k < timestamp r)
           \<longrightarrow> response_row py_round2 gis lat lon r
                 \<in> set (resp_data (get_nearby_reports py_round2 gis d lat lon radius_km)))"
    if r: "r \<in> set (reports d)"
      and edge: "ST_Distance gis (location r) (ST_MakePoint lon lat) = radius_km * 1000" for r
  proof -
    from edge have rin: "in_radius gis lat lon radius_km r"
      by (simp add: near)
    from nearby_latest[OF r rin]
    obtain k where stored: "k \<in> set (reports d)"
      and kclose: "ST_Distance gis (location k) (ST_MakePoint lon lat) \<le> radius_km * 1000"
      and k: "response_row py_round2 gis lat lon k
                \<in> set (resp_data (get_nearby_reports py_round2 gis d lat lon radius_km))"
      and same: "place_name k = place_name r" and le: "timestamp r \<le> timestamp k"
      by (auto simp: near)
    have place: "\<exists>row \<in> set (resp_data (get_nearby_reports py_round2 gis d lat lon radius_km)).
                   nr_place_name row = place_name r \<and> timestamp r \<le> nr_timestamp row"
      using k same le by (auto simp: response_row_fields intro!: bexI[of _ "response_row py_round2 gis lat lon k"])
    have itself: "response_row py_round2 gis lat lon r
                    \<in> set (resp_data (get_nearby_reports py_round2 gis d lat lon radius_km))"
      if older: "\<forall>k \<in> set (reports d).
                   k \<noteq> r \<and> place_name k = place_name r
                   \<and> ST_Distance gis (location k) (ST_MakePoint lon lat) \<le> radius_km * 1000
                   \<longrightarrow> timestamp k < timestamp r"
    proof -
      have "k = r"
      proof (rule ccontr)
        assume "k \<noteq> r"
        with older stored same kclose have "timestamp k < timestamp r" by blast
        with le show False by simp
      qed
      with k show ?thesis by simp
    qed
    from rin place itself show ?thesis by blast
  qed
  from inside boundary show ?thesis by blast
qed

text \<open>
  Whatever the distance function: a report that a strictly newer report of the same
  place within the radius supersedes is not in the response, at the boundary or not.
\<close>

lemma superseded_not_returned:
  assumes r: "r \<in> set (reports d)" and k: "k \<in> set (reports d)"
    and rin: "in_radius gis lat lon radius_km r" and kin: "in_radius gis lat lon radius_km k"
    and same: "place_name k = place_name r" and newer: "timestamp r < timestamp k"
  shows "response_row py_round2 gis lat lon r
           \<notin> set (resp_data (get_nearby_reports py_round2 gis d lat lon radius_km))"
proof
  assume returned: "response_row py_round2 gis lat lon r
                  \<in> set (resp_data (get_nearby_reports py_round2 gis d lat lon radius_km))"
  from nearby_latest[OF k kin]
  obtain m where m: "response_row py_round2 gis lat lon m
                       \<in> set (resp_data (get_nearby_reports py_round2 gis d lat lon radius_km))"
    and msame: "place_name m = place_name k" and mle: "timestamp k \<le> timestamp m"
    by blast
  have "inj_on nr_place_name (set (resp_data (get_nearby_reports py_round2 gis d lat lon radius_km)))"
    using nearby_places_distinct[of py_round2 gis d lat lon radius_km] by (simp add: distinct_map)
  moreover have "nr_place_name (response_row py_round2 gis lat lon r)
                   = nr_place_name (response_row py_round2 gis lat lon m)"
    by (simp add: response_row_fields same msame)
  ultimately have "response_row py_round2 gis lat lon r = response_row py_round2 gis lat lon m"
    using returned m by (rule inj_onD)
  then have "nr_timestamp (response_row py_round2 gis lat lon r) = nr_timestamp (response_row py_round2 gis lat lon m)"
    by simp
  then have "timestamp r = timestamp m"
    by (simp add: response_row_fields)
  with newer mle show False by simp
qed

theorem nearby_within_radius_witness:
  "(\<forall>a b r. ST_DWithin example_gis a b r = (ST_Distance example_gis a b \<le> r))
   \<and> bar \<in> set (reports nearby_db)
   \<and> ST_Distance example_gis (location bar) (ST_MakePoint 0 0) = 111 * 1000
   \<and> in_radius example_gis 0 0 111 bar
   \<and> response_row example_round2 example_gis 0 0 bar
       \<in> set (resp_data (get_nearby_reports example_round2 example_gis nearby_db 0 0 111))"
proof -
  have stored: "bar \<in> set (reports nearby_db)"
    by (simp add: nearby_db_def)
  have edge: "ST_Distance example_gis (location bar) (ST_MakePoint 0 0) = 111 * 1000"
    by (simp add: example_gis_def ST_MakePoint_def bar_def)
  have alone: "\<forall>k \<in> set (reports nearby_db).
                 k \<noteq> bar \<and> place_name k = place_name bar
                 \<and> ST_Distance example_gis (location k) (ST_MakePoint 0 0) \<le> 111 * 1000
                 \<longrightarrow> timestamp k < timestamp bar"
    by (simp add: example_reports)
  from nearby_within_radius[OF example_gis_contract, of example_round2 nearby_db 0 0 111]
    stored edge alone
  have "in_radius example_gis 0 0 111 bar
        \<and> response_row example_round2 example_gis 0 0 bar
            \<in> set (resp_data (get_nearby_reports example_round2 example_gis nearby_db 0 0 111))"
    by blast
  with example_gis_contract stored edge show ?thesis by simp
qed

section \<open>Stored passwords\<close>

lemma find_Some_mem:
  assumes "find P xs = Some x"
  shows "x \<in> set xs"
  using assms by (induction xs) (auto split: if_splits)

text \<open>\<^verbatim>\<open>register_user\<close> stores what \<^verbatim>\<open>hash_password\<close> returned.\<close>

lemma register_user_stores_hash:
  assumes "register_user pwd_context salt d now user_data = (Inr u, d')"
  shows "password_hash u = hash_password pwd_context salt (uc_password user_data)
         \<and> u \<in> set (users d')"
  using assms
  by (auto simp: register_user_def session_add_commit_def new_User_def Let_def
      split: option.splits if_splits sum.splits prod.splits)

lemma register_user_rows:
  assumes "row \<in> set (users (snd (register_user pwd_context salt d now user_data)))"
  shows "row \<in> set (users d)
         \<or> password_hash row = hash_password pwd_context salt (uc_password user_data)"
  using assms
  by (auto simp: register_user_def session_add_commit_def new_User_def Let_def
      split: option.splits if_splits sum.splits prod.splits)

text \<open>
  \<^verbatim>\<open>create_user\<close> raises at \<^verbatim>\<open>session.exec\<close>, before the row with
  \<^verbatim>\<open>password_hash=user_data.password\<close> is built: nothing is stored.
\<close>

lemma create_user_stores_nothing:
  "create_user d now user_data = (Inl (Unhandled AttributeError), d)"
  by (simp add: create_user_def session_exec_def)

lemma users_routes_store_nothing:
  "snd (update_user uid changes d) = d" "snd (delete_user uid d) = d"
  by (simp_all add: update_user_def delete_user_def truthy_def Let_def)

text \<open>The profile update writes name, bio and avatar only.\<close>

lemma auth_get_current_user_stored:
  assumes "auth_get_current_user jwt_decode d token = Inr user"
  shows "user \<in> set (users d)"
  using assms
  by (auto simp: auth_get_current_user_def dest: find_Some_mem
      split: sum.splits if_splits option.splits)

lemma profile_update_keeps_hashes:
  assumes "current_user \<in> set (users d)"
    and "row \<in> set (users (snd (update_current_user_profile suffix token_hex save form_name
                                   form_bio avatar avatar_url_file current_user d)))"
  shows "\<exists>old \<in> set (users d). password_hash row = password_hash old"
  using assms
  by (auto simp: update_current_user_profile_def Let_def split: option.splits if_splits)

lemma profile_endpoint_keeps_hashes:
  assumes "row \<in> set (users (snd (update_current_user_profile_endpoint jwt_decode token suffix
                                    token_hex save form_name form_bio avatar avatar_url_file d)))"
  shows "\<exists>old \<in> set (users d). password_hash row = password_hash old"
proof (cases "auth_get_current_user jwt_decode d token")
  case (Inl e)
  then show ?thesis
    using assms by (auto simp: update_current_user_profile_endpoint_def Depends_def)
next
  case (Inr user)
  then have "user \<in> set (users d)"
    by (rule auth_get_current_user_stored)
  moreover have "row \<in> set (users (snd (update_current_user_profile suffix token_hex save
                                           form_name form_bio avatar avatar_url_file user d)))"
    using assms Inr by (simp add: update_current_user_profile_endpoint_def Depends_def)
  ultimately show ?thesis
    by (rule profile_update_keeps_hashes)
qed

text \<open>
  C5. Every persisted user holds a one-way hash of the password and never the
  plaintext, under every operation that creates or mutates a user. A row of the store
  after \<^verbatim>\<open>register_user\<close> is a row that was there before or carries as
  \<^verbatim>\<open>password_hash\<close> what \<^verbatim>\<open>hash_password\<close> (the password context's hash)
  returned for the submitted password; \<^verbatim>\<open>create_user\<close>, \<^verbatim>\<open>update_user\<close> and
  \<^verbatim>\<open>delete_user\<close> leave the store as it was; and after an update of the current
  user's profile every row carries the \<^verbatim>\<open>password_hash\<close> of a row that was there
  before.
\<close>

theorem stored_password_is_hash:
  "(\<forall>row \<in> set (users (snd (register_user pwd_context salt d now user_data))).
       row \<in> set (users d)
       \<or> password_hash row = hash_password pwd_context salt (uc_password user_data))
   \<and> snd (create_user d now user_data) = d
   \<and> snd (update_user_endpoint authorization uid changes d) = d
   \<and> snd (delete_user_endpoint authorization uid d) = d
   \<and> (\<forall>row \<in> set (users (snd (update_current_user_profile_endpoint jwt_decode token suffix
                                       token_hex save form_name form_bio avatar
                                       avatar_url_file d))).
         \<exists>old \<in> set (users d). password_hash row = password_hash old)"
  using register_user_rows[of _ pwd_context salt d now user_data]
    profile_endpoint_keeps_hashes[of _ jwt_decode token suffix token_hex save form_name form_bio
      avatar avatar_url_file d]
  by (simp add: create_user_stores_nothing users_routes_store_nothing
      update_user_endpoint_def delete_user_endpoint_def)

theorem stored_password_is_hash_witness:
  "users (snd (register_user example_context ''s'' empty_db 0 bob_body)) = [bob_row]
   \<and> password_hash bob_row = hash_password example_context ''s'' (uc_password bob_body)
   \<and> snd (create_user empty_db 0 bob_body) = empty_db
   \<and> users empty_db = []"
proof -
  have stored: "users (snd (register_user example_context ''s'' empty_db 0 bob_body)) = [bob_row]"
    by (simp add: register_user_def session_add_commit_def new_User_def unique_violation_def
        hash_password_def example_context_def empty_db_def bob_body_def bob_row_def Let_def)
  from stored_password_is_hash[of example_context "''s''" empty_db 0 bob_body]
  have "(\<forall>row \<in> set (users (snd (register_user example_context ''s'' empty_db 0 bob_body))).
           row \<in> set (users empty_db)
           \<or> password_hash row
               = hash_password example_context ''s'' (uc_password bob_body))
        \<and> snd (create_user empty_db 0 bob_body) = empty_db"
    by blast
  then show ?thesis
    using stored by (simp add: empty_db_def)
qed

section \<open>Verifying against a malformed hash\<close>

text \<open>
  C7 as the code has it. \<^verbatim>\<open>verify_password\<close> returns what the password context's
  \<^verbatim>\<open>verify\<close> returns: its boolean when it gives one and, unhandled, the exception
  it raises; and a login whose stored hash makes the context raise ends in that
  exception. Nothing turns an exception into \<open>False\<close>.
\<close>

theorem verify_password_propagates:
  "verify_password pwd_context plain hashed = ctx_verify pwd_context plain hashed
   \<and> (\<forall>b. ctx_verify pwd_context plain hashed = Inr b
           \<longrightarrow> verify_password pwd_context plain hashed = Inr b)
   \<and> (\<forall>e. ctx_verify pwd_context plain hashed = Inl e
           \<longrightarrow> verify_password pwd_context plain hashed = Inl e
               \<and> (\<forall>user. find (\<lambda>u. username u = form_username) (users d) = Some user
                            \<and> password_hash user = hashed
                       \<longrightarrow> login pwd_context jwt_encode now form_username plain d
                             = Inl (Unhandled e)))"
  by (simp add: verify_password_def login_def)

theorem verify_password_propagates_witness:
  "ctx_verify example_context ''secret1'' ''secret1'' = Inl UnknownHashError
   \<and> verify_password example_context ''secret1'' ''secret1'' = Inl UnknownHashError
   \<and> login example_context example_jwt_encode 0 ''bob'' ''secret1'' legacy_db
       = Inl (Unhandled UnknownHashError)"
proof -
  have raises: "ctx_verify example_context ''secret1'' ''secret1'' = Inl UnknownHashError"
    by (simp add: example_context_def)
  have row: "find (\<lambda>u. username u = ''bob'') (users legacy_db) = Some legacy_row"
    by (simp add: legacy_db_def legacy_row_def bob_row_def)
  have hash: "password_hash legacy_row = ''secret1''"
    by (simp add: legacy_row_def)
  from verify_password_propagates[of example_context "''secret1''" "''secret1''" "''bob''"
      legacy_db example_jwt_encode 0] raises row hash
  show ?thesis by simp
qed

text \<open>
  C7 as stated (verify never throws and returns false on a malformed hash) fails: with a
  context that, like passlib's, raises \<^verbatim>\<open>UnknownHashError\<close> for a string it cannot
  identify, verifying against the string \<open>secret1\<close>, which is no hash, raises.
\<close>

theorem verify_password_raises:
  "verify_password example_context ''secret1'' ''secret1'' = Inl UnknownHashError
   \<and> \<not> (\<forall>pwd_context plain hashed. \<exists>b. verify_password pwd_context plain hashed = Inr b)"
proof -
  have raises: "verify_password example_context ''secret1'' ''secret1'' = Inl UnknownHashError"
    by (simp add: verify_password_def example_context_def)
  then have "\<not> (\<exists>b. verify_password example_context ''secret1'' ''secret1'' = Inr b)"
    by simp
  then have "\<not> (\<forall>pwd_context plain hashed. \<exists>b. verify_password pwd_context plain hashed = Inr b)"
    by blast
  with raises show ?thesis by simp
qed

section \<open>Validation of a submitted report\<close>




section \<open>Registering a taken username\<close>

lemma register_user_adds_row:
  assumes "register_user pwd_context salt d now body = (Inr u, d')"
  shows "find (\<lambda>v. username v = uc_username body) (users d') \<noteq> None
         \<and> u \<in> set (users d') \<and> username u = uc_username body"
  using assms
  by (auto simp: register_user_def session_add_commit_def new_User_def Let_def find_None_iff
      split: option.splits if_splits sum.splits prod.splits)

text \<open>
  C9. Of two registrations with the same username the second fails with the conflict
  error (400) and leaves the first user's record as it was: once a registration has
  succeeded, any later registration with that username, whatever its other fields,
  password context, salt and time, returns 400 and the very store the first one left,
  which holds the first user's row.
\<close>

theorem register_same_username_conflict:
  assumes "register_user pwd_context salt d now first = (Inr u, d')"
      and "uc_username second = uc_username first"
  shows "register_user pwd_context' salt' d' now' second
           = (Inl (HTTPException 400 ''Username already exists''), d')
         \<and> status_code (HTTPException 400 ''Username already exists'') = 400
         \<and> u \<in> set (users d') \<and> username u = uc_username first"
proof -
  from register_user_adds_row[OF assms(1)]
  obtain v where "find (\<lambda>v. username v = uc_username first) (users d') = Some v"
    by auto
  then show ?thesis
    using register_user_adds_row[OF assms(1)] assms(2) by (simp add: register_user_def)
qed

theorem register_same_username_conflict_witness:
  "register_user example_context ''s'' empty_db 0 bob_body = (Inr bob_row, bob_db)
   \<and> register_user example_context ''t'' bob_db 5 (bob_body\<lparr>uc_password := ''hunter22''\<rparr>)
       = (Inl (HTTPException 400 ''Username already exists''), bob_db)
   \<and> bob_row \<in> set (users bob_db)"
proof -
  have first: "register_user example_context ''s'' empty_db 0 bob_body = (Inr bob_row, bob_db)"
    by (simp add: register_user_def session_add_commit_def new_User_def unique_violation_def
        hash_password_def example_context_def empty_db_def bob_body_def bob_row_def bob_db_def
        Let_def)
  have same: "uc_username (bob_body\<lparr>uc_password := ''hunter22''\<rparr>) = uc_username bob_body"
    by simp
  show ?thesis
    using first register_same_username_conflict[OF first same, of example_context "''t''" 5]
    by simp
qed

section \<open>Updating and deleting a user without credentials\<close>






end
